theory Spec2Isabelle
  imports Main "HOL-Library.Word"
begin

section \<open>JavaScript values\<close>

type_synonym byte = "8 word"

text \<open>
  An optional string property is \<open>None\<close> when it is \<open>undefined\<close>. In a condition
  JavaScript reads \<open>undefined\<close> and the empty string as false.
\<close>

definition truthy :: "string option \<Rightarrow> bool" where
  "truthy v = (case v of None \<Rightarrow> False | Some s \<Rightarrow> s \<noteq> [])"

text \<open>\<open>a || b\<close> on optional strings: the first operand when it is truthy, else the second.\<close>

definition js_or :: "string option \<Rightarrow> string option \<Rightarrow> string option" where
  "js_or a b = (if truthy a then a else b)"

text \<open>\<open>s.split(c)\<close> for a one-character separator; \<open>''''.split(c)\<close> is \<open>['''']\<close>.\<close>

fun split_on :: "char \<Rightarrow> string \<Rightarrow> string list" where
  "split_on c [] = [[]]"
| "split_on c (x # xs) =
     (let ps = split_on c xs in if x = c then [] # ps else (x # hd ps) # tl ps)"

text \<open>\<open>parts.join(sep)\<close>.\<close>

fun join :: "string \<Rightarrow> string list \<Rightarrow> string" where
  "join sep [] = []"
| "join sep [p] = p"
| "join sep (p # q # ps) = p @ sep @ join sep (q # ps)"

text \<open>\<open>buffer.toString('hex')\<close>: two lower-case digits for each byte.\<close>

definition hexDigit :: "nat \<Rightarrow> char" where
  "hexDigit n = ''0123456789abcdef'' ! n"

definition toHex :: "byte list \<Rightarrow> string" where
  "toHex bs = concat (map (\<lambda>b. [hexDigit (unat b div 16), hexDigit (unat b mod 16)]) bs)"

text \<open>
  \<open>Buffer.from(s, 'hex')\<close>: pairs of hexadecimal digits of either case; decoding stops
  at the first pair that is not hexadecimal, and a single trailing digit is dropped.
\<close>

definition hexVal :: "char \<Rightarrow> nat option" where
  "hexVal c =
     (if c \<in> set ''0123456789'' then Some (of_char c - 48)
      else if c \<in> set ''abcdef'' then Some (of_char c - 87)
      else if c \<in> set ''ABCDEF'' then Some (of_char c - 55)
      else None)"

fun fromHex :: "string \<Rightarrow> byte list" where
  "fromHex (a # b # rest) =
     (case hexVal a of
        None \<Rightarrow> []
      | Some h \<Rightarrow> (case hexVal b of
          None \<Rightarrow> []
        | Some l \<Rightarrow> word_of_nat (16 * h + l) # fromHex rest))"
| "fromHex [a] = []"
| "fromHex [] = []"

text \<open>What is thrown: an \<open>Error\<close> or a \<open>TypeError\<close>, with its message.\<close>

datatype error = Error string | TypeError string

section \<open>Field-level encryption: \<open>EncryptionService\<close>\<close>

text \<open>
  The functions of Node's \<open>crypto\<close> module that the service calls. They are library
  code, so the service is modelled over any implementation of them:
  \<^item> \<open>pbkdf2Sync secret salt iterations keylen digest\<close>;
  \<^item> \<open>gcm_cipher key iv aad plaintext\<close>: \<open>createCipheriv('aes-256-gcm', key, iv)\<close>,
    \<open>setAAD\<close>, \<open>update\<close>, \<open>final\<close> and \<open>getAuthTag\<close>; \<open>Inl msg\<close> when one of
    them throws, else the ciphertext bytes and the authentication tag;
  \<^item> \<open>gcm_decipher key iv aad tag ciphertext\<close>: \<open>createDecipheriv\<close>, \<open>setAAD\<close>,
    \<open>setAuthTag\<close>, \<open>update\<close> and \<open>final\<close> on hexadecimal text of even length that
    decodes to \<open>ciphertext\<close>; \<open>Inl msg\<close> when one of them throws (a wrong tag, a bad
    IV), else the plaintext;
  \<^item> \<open>odd_hex_error key iv aad tag text\<close>: the same calls on hexadecimal text of odd
    length always throw, since \<open>update(text, 'hex', 'utf8')\<close> refuses such text if no
    earlier call has thrown; this is the message of what they throw;
  \<^item> \<open>sha256 message\<close>: \<open>createHash('sha256').update(message).digest()\<close>.
\<close>

record crypto =
  pbkdf2Sync :: "string \<Rightarrow> string \<Rightarrow> nat \<Rightarrow> nat \<Rightarrow> string \<Rightarrow> byte list"
  gcm_cipher :: "byte list \<Rightarrow> byte list \<Rightarrow> string \<Rightarrow> string \<Rightarrow> string + (byte list \<times> byte list)"
  gcm_decipher :: "byte list \<Rightarrow> byte list \<Rightarrow> string \<Rightarrow> byte list \<Rightarrow> byte list \<Rightarrow> string + string"
  odd_hex_error :: "byte list \<Rightarrow> byte list \<Rightarrow> string \<Rightarrow> byte list \<Rightarrow> string \<Rightarrow> string"
  sha256 :: "string \<Rightarrow> byte list"

record EncryptionService =
  encryptionKey :: "byte list"

definition keyLength :: nat where
  "keyLength = 32"

definition ivLength :: nat where
  "ivLength = 16"

definition AAD :: string where
  "AAD = ''medical-data-v1''"

text \<open>
  The constructor reads \<open>process.env.MEDICAL_ENCRYPTION_KEY\<close> and throws when it is
  missing or empty; otherwise it derives the key once.
\<close>

definition new_EncryptionService :: "crypto \<Rightarrow> string option \<Rightarrow> error + EncryptionService" where
  "new_EncryptionService lib keyString =
     (case keyString of
        None \<Rightarrow> Inl (Error ''MEDICAL_ENCRYPTION_KEY environment variable is required'')
      | Some k \<Rightarrow>
          if k = [] then Inl (Error ''MEDICAL_ENCRYPTION_KEY environment variable is required'')
          else Inr \<lparr>encryptionKey = pbkdf2Sync lib k ''medical-salt-2024'' 100000 keyLength ''sha512''\<rparr>)"

text \<open>
  \<open>encrypt\<close>: the empty string is returned as it is; otherwise the value is encrypted
  under the IV drawn by \<open>crypto.randomBytes(ivLength)\<close> (here the argument \<open>iv\<close>) and
  the result is \<open>iv:authTag:encryptedData\<close> in hexadecimal. Anything thrown inside is
  rethrown as \<open>Encryption failed: ...\<close>.
\<close>

definition encrypt :: "crypto \<Rightarrow> EncryptionService \<Rightarrow> byte list \<Rightarrow> string \<Rightarrow> error + string" where
  "encrypt lib svc iv plaintext =
     (if plaintext = [] then Inr plaintext
      else case gcm_cipher lib (encryptionKey svc) iv AAD plaintext of
        Inl msg \<Rightarrow> Inl (Error (''Encryption failed: '' @ msg))
      | Inr (encrypted, authTag) \<Rightarrow>
          Inr (join '':'' [toHex iv, toHex authTag, toHex encrypted]))"

text \<open>
  \<open>decrypt\<close>: an empty value or one without \<open>:\<close> is returned as it is; otherwise the
  value must split into exactly three parts. The first two are decoded by \<open>Buffer.from\<close>;
  the third is handed to the decipher as hexadecimal text, which throws when its length
  is odd. Anything thrown inside is rethrown as \<open>Decryption failed: ...\<close>.
\<close>

definition decrypt :: "crypto \<Rightarrow> EncryptionService \<Rightarrow> string \<Rightarrow> error + string" where
  "decrypt lib svc encryptedData =
     (if encryptedData = [] \<or> CHR '':'' \<notin> set encryptedData then Inr encryptedData
      else let parts = split_on CHR '':'' encryptedData in
        if length parts \<noteq> 3
        then Inl (Error (''Decryption failed: '' @ ''Invalid encrypted data format''))
        else if odd (length (parts ! 2))
        then Inl (Error (''Decryption failed: ''
                         @ odd_hex_error lib (encryptionKey svc) (fromHex (parts ! 0)) AAD
                             (fromHex (parts ! 1)) (parts ! 2)))
        else case gcm_decipher lib (encryptionKey svc) (fromHex (parts ! 0)) AAD
                    (fromHex (parts ! 1)) (fromHex (parts ! 2)) of
          Inl msg \<Rightarrow> Inl (Error (''Decryption failed: '' @ msg))
        | Inr decrypted \<Rightarrow> Inr decrypted)"

text \<open>\<open>hash\<close>: the empty string is returned as it is; otherwise SHA-256 of the salted value.\<close>

definition hash_salt :: string where
  "hash_salt = ''medical-hash-salt-2024''"

definition hash :: "crypto \<Rightarrow> string \<Rightarrow> string" where
  "hash lib data = (if data = [] then data else toHex (sha256 lib (data @ hash_salt)))"

section \<open>The column transformers of \<open>@Encrypted\<close> and \<open>@Hashed\<close>\<close>

text \<open>
  The decorators share one lazily built service; when the constructor throws, the
  service stays undefined.
\<close>

definition encryptionService :: "crypto \<Rightarrow> string option \<Rightarrow> EncryptionService option" where
  "encryptionService lib keyString =
     (case new_EncryptionService lib keyString of Inl e \<Rightarrow> None | Inr svc \<Rightarrow> Some svc)"

text \<open>
  \<open>transformer.to\<close> and \<open>transformer.from\<close> of \<open>@Encrypted\<close>: both return the value as
  it is when it is empty or the service is undefined, and both catch whatever the
  service throws and return the value they were given.
\<close>

definition Encrypted_to :: "crypto \<Rightarrow> EncryptionService option \<Rightarrow> byte list \<Rightarrow> string \<Rightarrow> string" where
  "Encrypted_to lib service iv v =
     (if v = [] \<or> service = None then v
      else case encrypt lib (the service) iv v of Inr c \<Rightarrow> c | Inl e \<Rightarrow> v)"

definition Encrypted_from :: "crypto \<Rightarrow> EncryptionService option \<Rightarrow> string \<Rightarrow> string" where
  "Encrypted_from lib service v =
     (if v = [] \<or> service = None then v
      else case decrypt lib (the service) v of Inr p \<Rightarrow> p | Inl e \<Rightarrow> v)"

definition Hashed_to :: "crypto \<Rightarrow> EncryptionService option \<Rightarrow> string \<Rightarrow> string" where
  "Hashed_to lib service v = (if v = [] \<or> service = None then v else hash lib v)"

text \<open>
  Two implementations of the library interface on which the codec is evaluated: one
  whose cipher copies the bytes and checks a fixed tag, and one whose cipher and
  decipher always throw.
\<close>

definition bytes_of :: "string \<Rightarrow> byte list" where
  "bytes_of s = map (\<lambda>c. word_of_nat (of_char c)) s"

definition chars_of :: "byte list \<Rightarrow> string" where
  "chars_of bs = map (\<lambda>b. char_of (unat b)) bs"

definition copy_crypto :: crypto where
  "copy_crypto =
     \<lparr>pbkdf2Sync = (\<lambda>secret salt iterations keylen digest. replicate keylen 0),
      gcm_cipher = (\<lambda>key iv aad plaintext. Inr (bytes_of plaintext, replicate 16 1)),
      gcm_decipher = (\<lambda>key iv aad tag ciphertext.
        if tag = replicate 16 1 then Inr (chars_of ciphertext)
        else Inl ''Unsupported state or unable to authenticate data''),
      odd_hex_error = (\<lambda>key iv aad tag text. ''The argument is invalid''),
      sha256 = (\<lambda>message. replicate 32 0)\<rparr>"

definition failing_crypto :: crypto where
  "failing_crypto =
     \<lparr>pbkdf2Sync = (\<lambda>secret salt iterations keylen digest. replicate keylen 0),
      gcm_cipher = (\<lambda>key iv aad plaintext. Inl ''Invalid key length''),
      gcm_decipher = (\<lambda>key iv aad tag ciphertext.
        Inl ''Unsupported state or unable to authenticate data''),
      odd_hex_error = (\<lambda>key iv aad tag text. ''The argument is invalid''),
      sha256 = (\<lambda>message. replicate 32 0)\<rparr>"

section \<open>Roles, classifications and risk levels\<close>

datatype MedicalRole =
  PATIENT | DOCTOR | NURSE | SPECIALIST | ONCOLOGIST | INSTITUTION_ADMIN | CAREGIVER
  | RESEARCHER | ADMIN | USER

fun role_value :: "MedicalRole \<Rightarrow> string" where
  "role_value PATIENT = ''patient''"
| "role_value DOCTOR = ''doctor''"
| "role_value NURSE = ''nurse''"
| "role_value SPECIALIST = ''specialist''"
| "role_value ONCOLOGIST = ''oncologist''"
| "role_value INSTITUTION_ADMIN = ''institution_admin''"
| "role_value CAREGIVER = ''caregiver''"
| "role_value RESEARCHER = ''researcher''"
| "role_value ADMIN = ''admin''"
| "role_value USER = ''user''"

datatype DataClassification = PHI | PII | PUBLIC | INTERNAL

fun classification_value :: "DataClassification \<Rightarrow> string" where
  "classification_value PHI = ''phi''"
| "classification_value PII = ''pii''"
| "classification_value PUBLIC = ''public''"
| "classification_value INTERNAL = ''internal''"

datatype RiskLevel = Low | Medium | High | Critical

text \<open>The order of the risk levels, from \<open>low\<close> to \<open>critical\<close>.\<close>

fun level_rank :: "RiskLevel \<Rightarrow> nat" where
  "level_rank Low = 0"
| "level_rank Medium = 1"
| "level_rank High = 2"
| "level_rank Critical = 3"

text \<open>What the code reads of a \<open>Date\<close>: the local hour (0 to 23) and the day of the week
  (0 is Sunday, 6 is Saturday).\<close>

record date =
  getHours :: nat
  getDay :: nat

section \<open>Audit: \<open>AuditService\<close>\<close>

text \<open>
  The argument of \<open>logEvent\<close> is an \<open>AuditLogEntry\<close> without its risk level and
  compliance flags; the stored entry adds both. The type of the metadata is left open.
\<close>

record 'm AuditEvent =
  eventId :: string
  eventType :: string
  aggregateId :: string
  userId :: string
  institutionId :: "string option"
  timestamp :: date
  dataClassifications :: "string list"
  ipAddress :: "string option"
  userAgent :: "string option"
  action :: string
  resource :: string
  resourceId :: "string option"
  allowed :: bool
  metadata :: "'m option"

record 'm AuditLogEntry = "'m AuditEvent" +
  riskLevel :: RiskLevel
  complianceFlags :: "string list"

text \<open>\<open>calculateRiskLevel\<close>: the score is accumulated factor by factor, then mapped to a level.\<close>

definition riskScore :: "('m, 'z) AuditEvent_scheme \<Rightarrow> nat" where
  "riskScore entry =
     (let riskScore = 0;
          riskScore = (if ''phi'' \<in> set (dataClassifications entry) then riskScore + 3 else riskScore);
          riskScore = (if ''pii'' \<in> set (dataClassifications entry) then riskScore + 2 else riskScore);
          riskScore = (if \<not> allowed entry then riskScore + 5 else riskScore);
          hour = getHours (timestamp entry);
          riskScore = (if hour < 6 \<or> hour > 22 then riskScore + 1 else riskScore);
          riskScore = (if action entry = ''DELETE'' then riskScore + 3 else riskScore);
          riskScore = (if action entry = ''UPDATE'' then riskScore + 1 else riskScore);
          riskScore = (if \<not> truthy (institutionId entry) then riskScore + 2 else riskScore)
      in riskScore)"

definition calculateRiskLevel :: "('m, 'z) AuditEvent_scheme \<Rightarrow> RiskLevel" where
  "calculateRiskLevel entry =
     (let riskScore = riskScore entry in
      if riskScore \<ge> 8 then Critical
      else if riskScore \<ge> 5 then High
      else if riskScore \<ge> 2 then Medium
      else Low)"

definition identifyComplianceFlags :: "('m, 'z) AuditEvent_scheme \<Rightarrow> string list" where
  "identifyComplianceFlags entry =
     (let flags = [];
          flags = (if \<not> allowed entry then flags @ [''unauthorized_access''] else flags);
          flags = (if ''phi'' \<in> set (dataClassifications entry) then flags @ [''phi_access''] else flags);
          flags = (if \<not> truthy (institutionId entry) then flags @ [''external_access''] else flags);
          flags = (if action entry = ''DELETE'' \<and> ''phi'' \<in> set (dataClassifications entry)
                   then flags @ [''data_deletion_phi''] else flags);
          hour = getHours (timestamp entry);
          flags = (if hour < 6 \<or> hour > 22 then flags @ [''after_hours_access''] else flags)
      in flags)"

text \<open>
  The service writes through its logger: \<open>logger.log\<close> records the entry,
  \<open>logger.error\<close> raises the critical alert, and \<open>logger.error\<close> again reports a
  failure from inside the \<open>catch\<close> block. Each call may throw, which the sink says for
  each entry. What the first two throw is caught; what the report throws is not, so the
  sink gives that error itself. The trail holds what has been written.
\<close>

record 'm sink =
  log_throws :: "'m AuditLogEntry \<Rightarrow> bool"
  alert_throws :: "'m AuditLogEntry \<Rightarrow> bool"
  report_throws :: "'m AuditEvent \<Rightarrow> error option"

record 'm trail =
  logged :: "'m AuditLogEntry list"
  alerted :: "'m AuditLogEntry list"

definition audit_failure :: error where
  "audit_failure = Error ''Audit logging failed - this is a compliance violation''"

text \<open>The entry \<open>logEvent\<close> builds: the event spread, with the derived level and flags.\<close>

definition auditEntry :: "'m AuditEvent \<Rightarrow> 'm AuditLogEntry" where
  "auditEntry entry =
     AuditEvent.extend entry
       (AuditLogEntry.fields (calculateRiskLevel entry) (identifyComplianceFlags entry))"

text \<open>
  The \<open>catch\<close> block of \<open>logEvent\<close>: it reports the failure through \<open>logger.error\<close> and
  then throws the audit failure; when the report itself throws, that error leaves the
  block instead.
\<close>

definition failed_to_log :: "'m sink \<Rightarrow> 'm AuditEvent \<Rightarrow> error" where
  "failed_to_log snk entry =
     (case report_throws snk entry of Some thrown \<Rightarrow> thrown | None \<Rightarrow> audit_failure)"

text \<open>
  \<open>logEvent\<close>: write the entry, alert when it is critical; whatever is thrown inside the
  \<open>try\<close> is caught and ends in the \<open>catch\<close> block. The trail is returned in both cases.
\<close>

definition logEvent :: "'m sink \<Rightarrow> 'm trail \<Rightarrow> 'm AuditEvent \<Rightarrow> (error + unit) \<times> 'm trail" where
  "logEvent snk tr entry =
     (let auditEntry = auditEntry entry in
      if log_throws snk auditEntry then (Inl (failed_to_log snk entry), tr)
      else let tr = tr\<lparr>logged := logged tr @ [auditEntry]\<rparr> in
        if riskLevel auditEntry = Critical
        then (if alert_throws snk auditEntry then (Inl (failed_to_log snk entry), tr)
              else (Inr (), tr\<lparr>alerted := alerted tr @ [auditEntry]\<rparr>))
        else (Inr (), tr))"

text \<open>
  What each call reads from its surroundings: \<open>new Date()\<close> in the guard and in
  \<open>logAccess\<close>, and the two parts of the generated event id (\<open>Date.now()\<close> in decimal
  and the nine characters taken from \<open>Math.random()\<close>).
\<close>

record env =
  guard_now :: date
  audit_now :: date
  date_now :: string
  random_part :: string

definition generateEventId :: "env \<Rightarrow> string" where
  "generateEventId e = ''evt_'' @ date_now e @ ''_'' @ random_part e"

record 'm access =
  a_userId :: string
  a_resource :: string
  a_resourceId :: "string option"
  a_action :: string
  a_allowed :: bool
  a_institutionId :: "string option"
  a_dataClassifications :: "string list option"
  a_ipAddress :: "string option"
  a_userAgent :: "string option"
  a_metadata :: "'m option"

definition accessEvent :: "env \<Rightarrow> 'm access \<Rightarrow> 'm AuditEvent" where
  "accessEvent e access =
     \<lparr>eventId = generateEventId e,
      eventType = ''data_access'',
      aggregateId = (if truthy (a_resourceId access) then the (a_resourceId access)
                     else a_resource access),
      userId = a_userId access,
      institutionId = a_institutionId access,
      timestamp = audit_now e,
      dataClassifications = (case a_dataClassifications access of
                               None \<Rightarrow> [''unknown''] | Some cs \<Rightarrow> cs),
      ipAddress = a_ipAddress access,
      userAgent = a_userAgent access,
      action = a_action access,
      resource = a_resource access,
      resourceId = a_resourceId access,
      allowed = a_allowed access,
      metadata = a_metadata access\<rparr>"

definition logAccess :: "'m sink \<Rightarrow> env \<Rightarrow> 'm trail \<Rightarrow> 'm access \<Rightarrow> (error + unit) \<times> 'm trail" where
  "logAccess snk e tr access = logEvent snk tr (accessEvent e access)"

section \<open>Policy evaluation: \<open>MedicalAuthorizationGuard\<close>\<close>

record MedicalUser =
  user_id :: string
  email :: string
  medicalRoles :: "MedicalRole list"
  user_institutionId :: "string option"
  status :: string

text \<open>
  What the guard reads of the HTTP request. The route parameters and the query are
  always objects; the body is \<open>undefined\<close> (\<open>None\<close>) when no body parser has filled it.
\<close>

record request =
  req_user :: "MedicalUser option"
  params :: "string \<Rightarrow> string option"
  body :: "(string \<Rightarrow> string option) option"
  query :: "string \<Rightarrow> string option"
  path :: string
  http_method :: string
  ip :: "string option"
  header_user_agent :: "string option"

text \<open>The metadata the decorators attach to a route, as the reflector returns it.\<close>

record route_meta =
  meta_requiredRoles :: "MedicalRole list option"
  meta_requiredDataClassification :: "DataClassification option"
  meta_institutionRequired :: "bool option"

record ResourceInfo =
  patientId :: "string option"
  info_institutionId :: "string option"
  resourceType :: "string option"
  info_resourceId :: "string option"

record PolicyDecision =
  d_allowed :: bool
  d_reason :: "string option"
  d_riskLevel :: RiskLevel

text \<open>The result of \<open>canUserAccessPHI\<close> and of \<open>checkAccessTime\<close>.\<close>

record verdict =
  v_allowed :: bool
  v_reason :: "string option"

record PolicyContext =
  user :: MedicalUser
  requiredRoles :: "MedicalRole list option"
  requiredDataClassification :: "DataClassification option"
  institutionRequired :: "bool option"
  resourceInfo :: ResourceInfo

definition extractResourceTypeFromPath :: "string \<Rightarrow> string" where
  "extractResourceTypeFromPath p =
     (let segments = filter (\<lambda>s. length s > 0) (split_on CHR ''/'' p) in
      case segments of [] \<Rightarrow> ''unknown'' | s # rest \<Rightarrow> s)"

text \<open>
  \<open>params.k || body.k || query.k\<close>: the body is read only when the route parameter is
  not truthy, and reading a property of an undefined body throws a \<open>TypeError\<close>.
\<close>

definition cannot_read :: "string \<Rightarrow> error" where
  "cannot_read k =
     TypeError (''Cannot read properties of undefined (reading '' @ [CHR 0x27] @ k
                @ [CHR 0x27] @ '')'')"

definition from_request :: "request \<Rightarrow> string \<Rightarrow> error + string option" where
  "from_request r k =
     (if truthy (params r k) then Inr (params r k)
      else case body r of
        None \<Rightarrow> Inl (cannot_read k)
      | Some b \<Rightarrow> Inr (js_or (js_or (params r k) (b k)) (query r k)))"

text \<open>\<open>extractResourceInfo\<close>: the properties are read in the order they are written.\<close>

definition extractResourceInfo :: "request \<Rightarrow> error + ResourceInfo" where
  "extractResourceInfo r =
     (case from_request r ''patientId'' of
        Inl err \<Rightarrow> Inl err
      | Inr pid \<Rightarrow>
          (case from_request r ''institutionId'' of
             Inl err \<Rightarrow> Inl err
           | Inr iid \<Rightarrow>
               Inr \<lparr>patientId = pid,
                    info_institutionId = iid,
                    resourceType = Some (extractResourceTypeFromPath (path r)),
                    info_resourceId = js_or (js_or (params r ''id'') (params r ''userId''))
                                             (params r ''recordId'')\<rparr>))"

definition medicalProfessionalRoles :: "MedicalRole list" where
  "medicalProfessionalRoles = [DOCTOR, NURSE, SPECIALIST, ONCOLOGIST, INSTITUTION_ADMIN]"

definition canUserAccessPHI :: "MedicalUser \<Rightarrow> ResourceInfo \<Rightarrow> verdict" where
  "canUserAccessPHI u info =
     (let hasMedicalRole = list_ex (\<lambda>role. role \<in> set medicalProfessionalRoles) (medicalRoles u) in
      if \<not> hasMedicalRole
      then \<lparr>v_allowed = False, v_reason = Some ''User role not authorized for PHI access''\<rparr>
      else if truthy (info_institutionId info) \<and> user_institutionId u \<noteq> info_institutionId info
      then \<lparr>v_allowed = False, v_reason = Some ''PHI access requires same institution association''\<rparr>
      else \<lparr>v_allowed = True, v_reason = None\<rparr>)"

definition criticalRoles :: "MedicalRole list" where
  "criticalRoles = [DOCTOR, NURSE, ONCOLOGIST, ADMIN]"

definition isCriticalRole :: "MedicalUser \<Rightarrow> bool" where
  "isCriticalRole u = list_ex (\<lambda>role. role \<in> set criticalRoles) (medicalRoles u)"

text \<open>
  \<open>checkAccessTime\<close>: researchers are refused at weekends and outside 8 to 18 o'clock.
  After-hours access by the other roles is only written to the application log, which
  changes no result.
\<close>

definition checkAccessTime :: "MedicalUser \<Rightarrow> date \<Rightarrow> verdict" where
  "checkAccessTime u now =
     (let hour = getHours now; day = getDay now in
      if RESEARCHER \<in> set (medicalRoles u) \<and> (day = 0 \<or> day = 6 \<or> hour < 8 \<or> hour > 18)
      then \<lparr>v_allowed = False, v_reason = Some ''Researcher access limited to business hours''\<rparr>
      else \<lparr>v_allowed = True, v_reason = None\<rparr>)"

text \<open>\<open>evaluateMedicalPolicies\<close>: the seven rules in order; the first that fails decides.\<close>

definition evaluateMedicalPolicies :: "date \<Rightarrow> PolicyContext \<Rightarrow> PolicyDecision" where
  "evaluateMedicalPolicies now context =
     (let u = user context; info = resourceInfo context in
      if status u \<noteq> ''active''
      then \<lparr>d_allowed = False, d_reason = Some ''User is not active'', d_riskLevel = High\<rparr>
      else if (case requiredRoles context of
                 None \<Rightarrow> False
               | Some rs \<Rightarrow> length rs > 0 \<and> \<not> list_ex (\<lambda>role. role \<in> set (medicalRoles u)) rs)
      then \<lparr>d_allowed = False,
            d_reason = Some (''User lacks required medical roles: ''
                             @ join '', '' (map role_value (the (requiredRoles context)))),
            d_riskLevel = Medium\<rparr>
      else if institutionRequired context = Some True \<and> \<not> truthy (user_institutionId u)
      then \<lparr>d_allowed = False,
            d_reason = Some ''User must be associated with a medical institution'',
            d_riskLevel = High\<rparr>
      else if truthy (info_institutionId info) \<and> user_institutionId u \<noteq> info_institutionId info
              \<and> ADMIN \<notin> set (medicalRoles u)
      then \<lparr>d_allowed = False, d_reason = Some ''Cross-institution access denied'',
            d_riskLevel = Critical\<rparr>
      else if requiredDataClassification context = Some PHI
              \<and> \<not> v_allowed (canUserAccessPHI u info)
      then \<lparr>d_allowed = False, d_reason = v_reason (canUserAccessPHI u info),
            d_riskLevel = Critical\<rparr>
      else if \<not> v_allowed (checkAccessTime u now)
      then \<lparr>d_allowed = False, d_reason = v_reason (checkAccessTime u now),
            d_riskLevel = Medium\<rparr>
      else if truthy (patientId info) \<and> PATIENT \<in> set (medicalRoles u)
              \<and> Some (user_id u) \<noteq> patientId info
      then \<lparr>d_allowed = False,
            d_reason = Some ''Patients can only access their own medical data'',
            d_riskLevel = Critical\<rparr>
      else \<lparr>d_allowed = True, d_reason = None, d_riskLevel = Low\<rparr>)"

text \<open>The metadata \<open>auditAccess\<close> attaches to the access it reports.\<close>

record access_metadata =
  md_path :: string
  md_userRoles :: "MedicalRole list"
  md_authReason :: "string option"
  md_riskLevel :: RiskLevel
  md_resourceInfo :: ResourceInfo

definition accessOf ::
  "MedicalUser \<Rightarrow> request \<Rightarrow> ResourceInfo \<Rightarrow> PolicyDecision \<Rightarrow> DataClassification option
   \<Rightarrow> access_metadata access" where
  "accessOf u r info authDecision classification =
     \<lparr>a_userId = user_id u,
      a_resource = (if truthy (resourceType info) then the (resourceType info) else ''unknown''),
      a_resourceId = info_resourceId info,
      a_action = http_method r,
      a_allowed = d_allowed authDecision,
      a_institutionId = user_institutionId u,
      a_dataClassifications = Some (case classification of
                                      None \<Rightarrow> [] | Some c \<Rightarrow> [classification_value c]),
      a_ipAddress = ip r,
      a_userAgent = header_user_agent r,
      a_metadata = Some \<lparr>md_path = path r,
                         md_userRoles = medicalRoles u,
                         md_authReason = d_reason authDecision,
                         md_riskLevel = d_riskLevel authDecision,
                         md_resourceInfo = info\<rparr>\<rparr>"

definition auditAccess ::
  "access_metadata sink \<Rightarrow> env \<Rightarrow> access_metadata trail \<Rightarrow> MedicalUser \<Rightarrow> request
   \<Rightarrow> ResourceInfo \<Rightarrow> PolicyDecision \<Rightarrow> DataClassification option
   \<Rightarrow> (error + unit) \<times> access_metadata trail" where
  "auditAccess snk e tr u r info authDecision classification =
     logAccess snk e tr (accessOf u r info authDecision classification)"

text \<open>
  \<open>canActivate\<close>: without a user on the request the guard answers false at once;
  otherwise it reads the resource information, evaluates the policies, awaits the audit
  and returns the decision. An error thrown while reading the request or by the audit
  leaves the guard before the \<open>return\<close>.
\<close>

definition policyContext :: "route_meta \<Rightarrow> MedicalUser \<Rightarrow> ResourceInfo \<Rightarrow> PolicyContext" where
  "policyContext meta u info =
     \<lparr>user = u,
      requiredRoles = meta_requiredRoles meta,
      requiredDataClassification = meta_requiredDataClassification meta,
      institutionRequired = meta_institutionRequired meta,
      resourceInfo = info\<rparr>"

definition canActivate ::
  "access_metadata sink \<Rightarrow> env \<Rightarrow> route_meta \<Rightarrow> access_metadata trail \<Rightarrow> request
   \<Rightarrow> (error + bool) \<times> access_metadata trail" where
  "canActivate snk e meta tr r =
     (case req_user r of
        None \<Rightarrow> (Inr False, tr)
      | Some u \<Rightarrow>
          (case extractResourceInfo r of
             Inl err \<Rightarrow> (Inl err, tr)
           | Inr info \<Rightarrow>
               let authDecision = evaluateMedicalPolicies (guard_now e)
                                    (policyContext meta u info)
               in (case auditAccess snk e tr u r info authDecision
                          (meta_requiredDataClassification meta) of
                     (Inl err, tr') \<Rightarrow> (Inl err, tr')
                   | (Inr ok, tr') \<Rightarrow> (Inr (d_allowed authDecision), tr'))))"

section \<open>Example inputs\<close>

text \<open>Concrete values on which the functions above are evaluated below.\<close>

definition example_service :: EncryptionService where
  "example_service = \<lparr>encryptionKey = replicate 32 0\<rparr>"

definition example_iv :: "byte list" where
  "example_iv = replicate 16 7"

definition wednesday_noon :: date where
  "wednesday_noon = \<lparr>getHours = 12, getDay = 3\<rparr>"

definition example_env :: env where
  "example_env =
     \<lparr>guard_now = wednesday_noon, audit_now = wednesday_noon,
      date_now = ''1700000000000'', random_part = ''k3j9x0q2a''\<rparr>"

definition quiet_sink :: "access_metadata sink" where
  "quiet_sink =
     \<lparr>log_throws = (\<lambda>entry. False), alert_throws = (\<lambda>entry. False),
      report_throws = (\<lambda>entry. None)\<rparr>"

definition broken_sink :: "access_metadata sink" where
  "broken_sink =
     \<lparr>log_throws = (\<lambda>entry. True), alert_throws = (\<lambda>entry. True),
      report_throws = (\<lambda>entry. None)\<rparr>"

text \<open>A sink whose logger throws on every call, the report in the \<open>catch\<close> block included.\<close>

definition dead_sink :: "access_metadata sink" where
  "dead_sink =
     \<lparr>log_throws = (\<lambda>entry. True), alert_throws = (\<lambda>entry. True),
      report_throws = (\<lambda>entry. Some (Error ''write EPIPE''))\<rparr>"

definition empty_trail :: "access_metadata trail" where
  "empty_trail = \<lparr>logged = [], alerted = []\<rparr>"

definition no_requirements :: route_meta where
  "no_requirements =
     \<lparr>meta_requiredRoles = None, meta_requiredDataClassification = None,
      meta_institutionRequired = None\<rparr>"

definition patient_p1 :: MedicalUser where
  "patient_p1 =
     \<lparr>user_id = ''p1'', email = ''p1@example.org'', medicalRoles = [PATIENT],
      user_institutionId = None, status = ''active''\<rparr>"

definition doctor_A :: MedicalUser where
  "doctor_A =
     \<lparr>user_id = ''d1'', email = ''d1@example.org'', medicalRoles = [DOCTOR],
      user_institutionId = Some ''A'', status = ''active''\<rparr>"

definition record_of_p2 :: ResourceInfo where
  "record_of_p2 =
     \<lparr>patientId = Some ''p2'', info_institutionId = None, resourceType = Some ''patients'',
      info_resourceId = None\<rparr>"

definition record_of_p1 :: ResourceInfo where
  "record_of_p1 =
     \<lparr>patientId = Some ''p1'', info_institutionId = None, resourceType = Some ''patients'',
      info_resourceId = None\<rparr>"

definition record_at_B :: ResourceInfo where
  "record_at_B =
     \<lparr>patientId = None, info_institutionId = Some ''B'', resourceType = Some ''records'',
      info_resourceId = None\<rparr>"

text \<open>A request for \<open>/patients/p2\<close> with \<open>patientId = p2\<close> among its route parameters
  and an empty parsed body.\<close>

definition get_patient_p2 :: "MedicalUser option \<Rightarrow> request" where
  "get_patient_p2 who =
     \<lparr>req_user = who,
      params = (\<lambda>k. if k = ''patientId'' then Some ''p2'' else None),
      body = Some (\<lambda>k. None),
      query = (\<lambda>k. None),
      path = ''/patients/p2'',
      http_method = ''GET'',
      ip = Some ''10.0.0.1'',
      header_user_agent = None\<rparr>"

text \<open>A denied deletion at three in the morning by an actor without institution.\<close>

definition night_delete :: "access_metadata AuditEvent" where
  "night_delete =
     \<lparr>eventId = ''evt_1'', eventType = ''data_access'', aggregateId = ''r1'', userId = ''u1'',
      institutionId = None, timestamp = \<lparr>getHours = 3, getDay = 2\<rparr>,
      dataClassifications = [''pii''], ipAddress = None, userAgent = None,
      action = ''DELETE'', resource = ''records'', resourceId = Some ''r1'',
      allowed = False, metadata = None\<rparr>"

text \<open>A denied read at noon by an actor of institution \<open>A\<close>.\<close>

definition denied_read :: "access_metadata AuditEvent" where
  "denied_read =
     \<lparr>eventId = ''evt_2'', eventType = ''data_access'', aggregateId = ''r2'', userId = ''u2'',
      institutionId = Some ''A'', timestamp = \<lparr>getHours = 12, getDay = 3\<rparr>,
      dataClassifications = [''internal''], ipAddress = None, userAgent = None,
      action = ''GET'', resource = ''records'', resourceId = Some ''r2'',
      allowed = False, metadata = None\<rparr>"


section \<open>The hexadecimal encoding and the three-part format\<close>

text \<open>Each of the sixteen digits decodes to its value, and none is the separator.\<close>

lemma hex_table:
  "list_all (\<lambda>k. hexVal (hexDigit k) = Some k \<and> hexDigit k \<noteq> CHR '':'') [0..<16]"
  by code_simp

lemma hexVal_hexDigit: "k < 16 \<Longrightarrow> hexVal (hexDigit k) = Some k"
  using hex_table by (simp add: list_all_iff)

lemma hexDigit_not_colon: "k < 16 \<Longrightarrow> hexDigit k \<noteq> CHR '':''"
  using hex_table by (simp add: list_all_iff)

lemma byte_nibbles: "unat (b::byte) div 16 < 16 \<and> unat b mod 16 < 16"
proof -
  have "unat b < 256" using unsigned_less [of b, where ?'a = nat] by simp
  then show ?thesis by arith
qed

lemma fromHex_toHex: "fromHex (toHex bs) = bs"
proof (induction bs)
  case Nil
  then show ?case by (simp add: toHex_def)
next
  case (Cons b bs)
  have r: "(word_of_nat (16 * (unat b div 16) + unat b mod 16) :: byte) = b" by simp
  from Cons show ?case
    using byte_nibbles [of b] r by (simp add: toHex_def hexVal_hexDigit)
qed

lemma toHex_no_colon: "CHR '':'' \<notin> set (toHex bs)"
proof (induction bs)
  case Nil
  then show ?case by (simp add: toHex_def)
next
  case (Cons b bs)
  have "hexDigit (unat b div 16) \<noteq> CHR '':''" and "hexDigit (unat b mod 16) \<noteq> CHR '':''"
    using byte_nibbles [of b] by (simp_all add: hexDigit_not_colon)
  with Cons show ?case
    by (auto simp: toHex_def)
qed

lemma length_toHex: "length (toHex bs) = 2 * length bs"
  by (induction bs) (simp_all add: toHex_def)

lemma split_on_no_sep: "c \<notin> set a \<Longrightarrow> split_on c a = [a]"
  by (induction a) (auto simp: Let_def)

lemma split_on_first: "c \<notin> set a \<Longrightarrow> split_on c (a @ c # rest) = a # split_on c rest"
  by (induction a) (auto simp: Let_def)

lemma split_on_three:
  "c \<notin> set a \<Longrightarrow> c \<notin> set b \<Longrightarrow> c \<notin> set d \<Longrightarrow>
   split_on c (a @ c # b @ c # d) = [a, b, d]"
  by (simp add: split_on_first split_on_no_sep)

lemma three_parts_colon: "split_on c v = [x, y, z] \<Longrightarrow> c \<in> set v"
  using split_on_no_sep [of c v] by auto

lemma decrypt_of_encoded:
  "decrypt lib svc (join '':'' [toHex iv, toHex tag, toHex ct])
   = (case gcm_decipher lib (encryptionKey svc) iv AAD tag ct of
        Inl msg \<Rightarrow> Inl (Error (''Decryption failed: '' @ msg))
      | Inr p \<Rightarrow> Inr p)"
proof -
  have j: "join '':'' [toHex iv, toHex tag, toHex ct]
           = toHex iv @ CHR '':'' # toHex tag @ CHR '':'' # toHex ct"
    by simp
  have s: "split_on CHR '':'' (toHex iv @ CHR '':'' # toHex tag @ CHR '':'' # toHex ct)
           = [toHex iv, toHex tag, toHex ct]"
    by (rule split_on_three) (rule toHex_no_colon)+
  show ?thesis
    unfolding j decrypt_def by (simp add: s fromHex_toHex length_toHex)
qed

section \<open>Properties of the encryption codec\<close>

text \<open>
  Claim C7. For every plaintext string, decrypting the result of encrypting it yields
  the string again, and the encoded value carries the IV and the authentication tag
  beside the ciphertext, so it is decrypted from the key and the value alone. The cipher
  is the library's: the statement holds for every implementation whose decipher returns
  the plaintext from the ciphertext and tag its cipher produced for this value under the
  same key, IV and additional data. The empty string passes through both directions
  without the cipher.
\<close>

theorem decrypt_encrypt_roundtrip:
  assumes "plaintext \<noteq> [] \<Longrightarrow>
           \<exists>ct tag. gcm_cipher lib (encryptionKey svc) iv AAD plaintext = Inr (ct, tag)
                    \<and> gcm_decipher lib (encryptionKey svc) iv AAD tag ct = Inr plaintext"
  shows "\<exists>c. encrypt lib svc iv plaintext = Inr c
             \<and> decrypt lib svc c = Inr plaintext
             \<and> (plaintext \<noteq> [] \<longrightarrow>
                  (\<exists>ct tag. c = toHex iv @ '':'' @ toHex tag @ '':'' @ toHex ct))"
proof (cases "plaintext = []")
  case True
  then show ?thesis by (simp add: encrypt_def decrypt_def)
next
  case False
  with assms obtain ct tag where
    c: "gcm_cipher lib (encryptionKey svc) iv AAD plaintext = Inr (ct, tag)" and
    d: "gcm_decipher lib (encryptionKey svc) iv AAD tag ct = Inr plaintext"
    by blast
  have e: "encrypt lib svc iv plaintext = Inr (join '':'' [toHex iv, toHex tag, toHex ct])"
    using False c by (simp add: encrypt_def)
  have "decrypt lib svc (join '':'' [toHex iv, toHex tag, toHex ct]) = Inr plaintext"
    using decrypt_of_encoded [of lib svc iv tag ct] d by simp
  moreover have "join '':'' [toHex iv, toHex tag, toHex ct]
                 = toHex iv @ '':'' @ toHex tag @ '':'' @ toHex ct"
    by simp
  ultimately show ?thesis using e by metis
qed

text \<open>The example cipher returns what it was given.\<close>

lemma char_byte_char: "char_of (unat (word_of_nat (of_char c) :: byte)) = c"
  by (simp add: unsigned_of_nat take_bit_eq_mod)

lemma chars_of_bytes_of: "chars_of (bytes_of s) = s"
  by (induction s) (simp_all add: chars_of_def bytes_of_def char_byte_char)

theorem decrypt_encrypt_roundtrip_witness:
  "\<exists>c. encrypt copy_crypto example_service example_iv ''123-45-6789'' = Inr c
       \<and> decrypt copy_crypto example_service c = Inr ''123-45-6789''"
proof -
  have "\<exists>ct tag. gcm_cipher copy_crypto (encryptionKey example_service) example_iv AAD ''123-45-6789'' = Inr (ct, tag)
      \<and> gcm_decipher copy_crypto (encryptionKey example_service) example_iv AAD tag ct = Inr ''123-45-6789''"
    by (simp add: copy_crypto_def chars_of_bytes_of)
  then show ?thesis
    using decrypt_encrypt_roundtrip [of "''123-45-6789''" copy_crypto example_service example_iv]
    by blast
qed

text \<open>
  Claim C10. For every input that is empty or contains no colon, \<open>decrypt\<close> returns the
  input unchanged and raises no error, whatever the cipher would do.
\<close>

theorem decrypt_passthrough:
  "encryptedData = [] \<or> CHR '':'' \<notin> set encryptedData \<Longrightarrow>
   decrypt lib svc encryptedData = Inr encryptedData"
  by (simp add: decrypt_def)

theorem decrypt_passthrough_witness:
  "decrypt failing_crypto example_service ''Jane Doe'' = Inr ''Jane Doe''
   \<and> decrypt failing_crypto example_service [] = Inr []"
  using decrypt_passthrough [of "''Jane Doe''" failing_crypto example_service]
        decrypt_passthrough [of "[]" failing_crypto example_service]
  by simp

text \<open>
  Claim C1 does not hold of the column transformers. When the cipher throws,
  \<open>encrypt\<close> raises \<open>Encryption failed\<close>, and \<open>transformer.to\<close> catches it and returns
  the plaintext it was given; a stored value with a colon that does not split into three
  parts makes \<open>decrypt\<close> raise \<open>Decryption failed\<close>, and \<open>transformer.from\<close> returns the
  stored value.
\<close>

theorem codec_swallows_failure:
  "encrypt failing_crypto example_service example_iv ''123-45-6789''
     = Inl (Error ''Encryption failed: Invalid key length'')
   \<and> Encrypted_to failing_crypto (Some example_service) example_iv ''123-45-6789''
     = ''123-45-6789''
   \<and> decrypt copy_crypto example_service ''12:30''
     = Inl (Error ''Decryption failed: Invalid encrypted data format'')
   \<and> Encrypted_from copy_crypto (Some example_service) ''12:30'' = ''12:30''"
  by (simp add: encrypt_def decrypt_def Encrypted_to_def Encrypted_from_def failing_crypto_def
      Let_def)

text \<open>
  Claim C1 as amended. The service raises a typed error on every failure and returns no
  value then. \<open>encrypt\<close> raises \<open>Encryption failed:\<close> with the cipher's message when the
  cipher throws on a non-empty value. \<open>decrypt\<close>, on a value that contains a colon,
  raises \<open>Decryption failed: Invalid encrypted data format\<close> when the value does not
  split into exactly three parts; on a value of three parts it raises
  \<open>Decryption failed:\<close> with the library's message when the third part has odd length,
  and with the decipher's message when the decipher throws. Every error of \<open>encrypt\<close> is
  an \<open>Encryption failed\<close> and every error of \<open>decrypt\<close> a \<open>Decryption failed\<close>. The
  transformers of \<open>@Encrypted\<close> catch these errors and return the value they were given.
\<close>

theorem codec_failure_policy:
  "(v \<noteq> [] \<and> gcm_cipher lib (encryptionKey svc) iv AAD v = Inl msg \<longrightarrow>
      encrypt lib svc iv v = Inl (Error (''Encryption failed: '' @ msg)))
   \<and> (CHR '':'' \<in> set v \<and> length (split_on CHR '':'' v) \<noteq> 3 \<longrightarrow>
      decrypt lib svc v = Inl (Error ''Decryption failed: Invalid encrypted data format''))
   \<and> (split_on CHR '':'' v = [a, b, c] \<and> odd (length c) \<longrightarrow>
      decrypt lib svc v
      = Inl (Error (''Decryption failed: ''
                    @ odd_hex_error lib (encryptionKey svc) (fromHex a) AAD (fromHex b) c)))
   \<and> (split_on CHR '':'' v = [a, b, c] \<and> even (length c)
       \<and> gcm_decipher lib (encryptionKey svc) (fromHex a) AAD (fromHex b) (fromHex c) = Inl msg
       \<longrightarrow> decrypt lib svc v = Inl (Error (''Decryption failed: '' @ msg)))
   \<and> (encrypt lib svc iv v = Inl e \<longrightarrow>
      (\<exists>m. e = Error (''Encryption failed: '' @ m)) \<and> Encrypted_to lib (Some svc) iv v = v)
   \<and> (decrypt lib svc v = Inl e \<longrightarrow>
      (\<exists>m. e = Error (''Decryption failed: '' @ m)) \<and> Encrypted_from lib (Some svc) v = v)"
proof (intro conjI impI)
  assume "v \<noteq> [] \<and> gcm_cipher lib (encryptionKey svc) iv AAD v = Inl msg"
  then show "encrypt lib svc iv v = Inl (Error (''Encryption failed: '' @ msg))"
    by (simp add: encrypt_def)
next
  assume "CHR '':'' \<in> set v \<and> length (split_on CHR '':'' v) \<noteq> 3"
  then show "decrypt lib svc v = Inl (Error ''Decryption failed: Invalid encrypted data format'')"
    by (auto simp: decrypt_def Let_def)
next
  assume h: "split_on CHR '':'' v = [a, b, c] \<and> odd (length c)"
  then have "CHR '':'' \<in> set v" using three_parts_colon by metis
  with h show "decrypt lib svc v
      = Inl (Error (''Decryption failed: ''
                    @ odd_hex_error lib (encryptionKey svc) (fromHex a) AAD (fromHex b) c))"
    by (auto simp: decrypt_def Let_def)
next
  assume h: "split_on CHR '':'' v = [a, b, c] \<and> even (length c)
       \<and> gcm_decipher lib (encryptionKey svc) (fromHex a) AAD (fromHex b) (fromHex c) = Inl msg"
  then have "CHR '':'' \<in> set v" using three_parts_colon by metis
  with h show "decrypt lib svc v = Inl (Error (''Decryption failed: '' @ msg))"
    by (auto simp: decrypt_def Let_def)
next
  assume f: "encrypt lib svc iv v = Inl e"
  then show "\<exists>m. e = Error (''Encryption failed: '' @ m)"
    by (auto simp: encrypt_def split: if_splits sum.splits prod.splits)
  from f show "Encrypted_to lib (Some svc) iv v = v"
    by (simp add: Encrypted_to_def)
next
  assume f: "decrypt lib svc v = Inl e"
  then show "\<exists>m. e = Error (''Decryption failed: '' @ m)"
    by (auto simp: decrypt_def Let_def split: if_splits sum.splits)
  from f show "Encrypted_from lib (Some svc) v = v"
    by (simp add: Encrypted_from_def)
qed

text \<open>
  The amended claim at a blood group written under a cipher that throws, at a stored
  value whose decipher throws, and at a stored value whose third part has odd length:
  the service raises each time, and the transformers return what they were given.
\<close>

theorem codec_failure_policy_witness:
  "encrypt failing_crypto example_service example_iv ''O+''
     = Inl (Error ''Encryption failed: Invalid key length'')
   \<and> Encrypted_to failing_crypto (Some example_service) example_iv ''O+'' = ''O+''
   \<and> decrypt failing_crypto example_service ''0a:0b:0c''
     = Inl (Error ''Decryption failed: Unsupported state or unable to authenticate data'')
   \<and> Encrypted_from failing_crypto (Some example_service) ''0a:0b:0c'' = ''0a:0b:0c''
   \<and> decrypt copy_crypto example_service ''0a:0b:0''
     = Inl (Error ''Decryption failed: The argument is invalid'')
   \<and> Encrypted_from copy_crypto (Some example_service) ''0a:0b:0'' = ''0a:0b:0''"
proof -
  have c: "gcm_cipher failing_crypto (encryptionKey example_service) example_iv AAD ''O+''
           = Inl ''Invalid key length''"
    by (simp add: failing_crypto_def)
  have s1: "split_on CHR '':'' ''0a:0b:0c'' = [''0a'', ''0b'', ''0c'']"
    by (simp add: Let_def)
  have s2: "split_on CHR '':'' ''0a:0b:0'' = [''0a'', ''0b'', ''0'']"
    by (simp add: Let_def)
  have d: "gcm_decipher failing_crypto (encryptionKey example_service) (fromHex ''0a'') AAD
             (fromHex ''0b'') (fromHex ''0c'')
           = Inl ''Unsupported state or unable to authenticate data''"
    by (simp add: failing_crypto_def)
  have o: "odd_hex_error copy_crypto (encryptionKey example_service) (fromHex ''0a'') AAD
             (fromHex ''0b'') ''0'' = ''The argument is invalid''"
    by (simp add: copy_crypto_def)
  have e1: "encrypt failing_crypto example_service example_iv ''O+''
            = Inl (Error ''Encryption failed: Invalid key length'')"
    using codec_failure_policy [where v = "''O+''" and lib = failing_crypto
            and svc = example_service and iv = example_iv and msg = "''Invalid key length''"]
          c
    by simp
  have d1: "decrypt failing_crypto example_service ''0a:0b:0c''
            = Inl (Error ''Decryption failed: Unsupported state or unable to authenticate data'')"
    using codec_failure_policy [where v = "''0a:0b:0c''" and lib = failing_crypto
            and svc = example_service and a = "''0a''" and b = "''0b''" and c = "''0c''"
            and msg = "''Unsupported state or unable to authenticate data''"]
          s1 d
    by simp
  have d2: "decrypt copy_crypto example_service ''0a:0b:0''
            = Inl (Error ''Decryption failed: The argument is invalid'')"
    using codec_failure_policy [where v = "''0a:0b:0''" and lib = copy_crypto
            and svc = example_service and a = "''0a''" and b = "''0b''" and c = "''0''"]
          s2 o
    by simp
  show ?thesis
    using e1 d1 d2
          codec_failure_policy [where v = "''O+''" and lib = failing_crypto
            and svc = example_service and iv = example_iv
            and e = "Error ''Encryption failed: Invalid key length''"]
          codec_failure_policy [where v = "''0a:0b:0c''" and lib = failing_crypto
            and svc = example_service
            and e = "Error ''Decryption failed: Unsupported state or unable to authenticate data''"]
          codec_failure_policy [where v = "''0a:0b:0''" and lib = copy_crypto
            and svc = example_service
            and e = "Error ''Decryption failed: The argument is invalid''"]
    by simp
qed

section \<open>Properties of the identifier hash\<close>







section \<open>Properties of the audit risk derivation\<close>

text \<open>
  Claim C5. The risk score of an audit entry is the sum of 3 when its classifications
  include \<open>phi\<close>, 2 when they include \<open>pii\<close>, 5 when the access was denied, 1 when the
  local hour is below 6 or above 22, 3 when the action is \<open>DELETE\<close>, 1 when it is
  \<open>UPDATE\<close>, and 2 when the entry has no institution; the level is critical from 8,
  high from 5, medium from 2 and low below.
\<close>

theorem risk_score_and_level:
  "riskScore entry =
     (if ''phi'' \<in> set (dataClassifications entry) then 3 else 0)
     + (if ''pii'' \<in> set (dataClassifications entry) then 2 else 0)
     + (if allowed entry then 0 else 5)
     + (if getHours (timestamp entry) < 6 \<or> 22 < getHours (timestamp entry) then 1 else 0)
     + (if action entry = ''DELETE'' then 3 else 0)
     + (if action entry = ''UPDATE'' then 1 else 0)
     + (if truthy (institutionId entry) then 0 else 2)
   \<and> calculateRiskLevel entry =
     (if 8 \<le> riskScore entry then Critical
      else if 5 \<le> riskScore entry then High
      else if 2 \<le> riskScore entry then Medium
      else Low)"
  by (simp add: riskScore_def calculateRiskLevel_def Let_def)

text \<open>Claim C5 at a denied night-time deletion and at a denied read at noon.\<close>

theorem risk_score_and_level_witness:
  "riskScore night_delete = 13 \<and> calculateRiskLevel night_delete = Critical
   \<and> riskScore denied_read = 5 \<and> calculateRiskLevel denied_read = High"
  using risk_score_and_level [of night_delete] risk_score_and_level [of denied_read]
  by (simp add: night_delete_def denied_read_def truthy_def)

text \<open>The level grows with the score, and a further \<open>phi\<close> never lowers the score.\<close>

lemma level_rank_mono:
  "riskScore a \<le> riskScore b \<Longrightarrow>
   level_rank (calculateRiskLevel a) \<le> level_rank (calculateRiskLevel b)"
  by (simp add: calculateRiskLevel_def Let_def)

lemma riskScore_add_phi:
  "dataClassifications entry = xs @ ys \<Longrightarrow>
   riskScore entry \<le> riskScore (entry\<lparr>dataClassifications := xs @ ''phi'' # ys\<rparr>)"
  by (simp add: riskScore_def Let_def)

text \<open>
  Claim C9. For every denied audit entry, putting a \<open>phi\<close> classification anywhere
  into its classification list, all other fields unchanged, never yields a lower risk
  level.
\<close>

theorem risk_monotonic_in_phi:
  assumes "\<not> allowed entry" and "dataClassifications entry = xs @ ys"
  shows "level_rank (calculateRiskLevel entry)
         \<le> level_rank (calculateRiskLevel (entry\<lparr>dataClassifications := xs @ ''phi'' # ys\<rparr>))"
  using assms(2) by (intro level_rank_mono riskScore_add_phi)

text \<open>Claim C9 at the denied read: the added classification raises it from high to
  critical.\<close>

theorem risk_monotonic_in_phi_witness:
  "calculateRiskLevel denied_read = High
   \<and> calculateRiskLevel (denied_read\<lparr>dataClassifications := [''internal'', ''phi'']\<rparr>) = Critical
   \<and> level_rank (calculateRiskLevel denied_read)
      \<le> level_rank (calculateRiskLevel (denied_read\<lparr>dataClassifications := [''internal'', ''phi'']\<rparr>))"
proof -
  have a: "\<not> allowed denied_read" by (simp add: denied_read_def)
  have b: "dataClassifications denied_read = [''internal''] @ []" by (simp add: denied_read_def)
  have c: "calculateRiskLevel denied_read = High"
    by (simp add: calculateRiskLevel_def riskScore_def denied_read_def truthy_def Let_def)
  have d: "calculateRiskLevel (denied_read\<lparr>dataClassifications := [''internal'', ''phi'']\<rparr>) = Critical"
    by (simp add: calculateRiskLevel_def riskScore_def denied_read_def truthy_def Let_def)
  show ?thesis using risk_monotonic_in_phi [OF a b] c d by simp
qed

section \<open>Properties of the policy evaluation\<close>

lemmas example_defs =
  patient_p1_def doctor_A_def record_of_p1_def record_of_p2_def record_at_B_def
  wednesday_noon_def example_env_def quiet_sink_def broken_sink_def dead_sink_def
  empty_trail_def no_requirements_def get_patient_p2_def

text \<open>
  Claim C6 does not hold as stated: the rules are tried in order, and a rule before the
  institution check may fail first. A doctor of institution \<open>A\<close> who asks for a resource
  of institution \<open>B\<close> on a route that requires the nurse role is refused by the role rule,
  with risk level medium.
\<close>

theorem cross_institution_other_rule_first:
  "evaluateMedicalPolicies wednesday_noon
     \<lparr>user = doctor_A, requiredRoles = Some [NURSE], requiredDataClassification = None,
      institutionRequired = None, resourceInfo = record_at_B\<rparr>
   = \<lparr>d_allowed = False, d_reason = Some ''User lacks required medical roles: nurse'',
      d_riskLevel = Medium\<rparr>"
  by (simp add: evaluateMedicalPolicies_def example_defs truthy_def Let_def)

text \<open>
  Claim C6 as amended. For every request whose resource carries an institution id that
  differs from the actor's, the actor not holding the admin role, the decision is a
  denial. When the three earlier rules pass (the actor is active, holds a required role
  if any is required, and has an institution if one is required) it is
  \<open>Cross-institution access denied\<close> with risk level critical. Otherwise it is the denial
  of the first earlier rule that fails: \<open>User is not active\<close> with risk level high, else
  \<open>User lacks required medical roles\<close> with risk level medium, else \<open>User must be
  associated with a medical institution\<close> with risk level high.
\<close>

theorem cross_institution_denied:
  assumes "truthy (info_institutionId (resourceInfo ctx))"
      and "user_institutionId (user ctx) \<noteq> info_institutionId (resourceInfo ctx)"
      and "ADMIN \<notin> set (medicalRoles (user ctx))"
  shows "let u = user ctx;
             d = evaluateMedicalPolicies now ctx;
             active = (status u = ''active'');
             role_held = (case requiredRoles ctx of
                            None \<Rightarrow> True
                          | Some rs \<Rightarrow> rs = [] \<or> (\<exists>role \<in> set rs. role \<in> set (medicalRoles u)));
             institution_held = (institutionRequired ctx = Some True
                                 \<longrightarrow> truthy (user_institutionId u))
         in \<not> d_allowed d
            \<and> (active \<and> role_held \<and> institution_held \<longrightarrow>
                 d = \<lparr>d_allowed = False, d_reason = Some ''Cross-institution access denied'',
                      d_riskLevel = Critical\<rparr>)
            \<and> (\<not> active \<longrightarrow>
                 d = \<lparr>d_allowed = False, d_reason = Some ''User is not active'',
                      d_riskLevel = High\<rparr>)
            \<and> (active \<and> \<not> role_held \<longrightarrow>
                 d = \<lparr>d_allowed = False,
                      d_reason = Some (''User lacks required medical roles: ''
                                       @ join '', '' (map role_value (the (requiredRoles ctx)))),
                      d_riskLevel = Medium\<rparr>)
            \<and> (active \<and> role_held \<and> \<not> institution_held \<longrightarrow>
                 d = \<lparr>d_allowed = False,
                      d_reason = Some ''User must be associated with a medical institution'',
                      d_riskLevel = High\<rparr>)"
  using assms
  by (auto simp: evaluateMedicalPolicies_def Let_def list_ex_iff split: option.splits)

text \<open>
  The amended claim at the doctor of \<open>A\<close> asking for protected health data of \<open>B\<close>, and at
  the same doctor once suspended: critical in the first case, the denial of the first
  rule with risk level high in the second.
\<close>

theorem cross_institution_denied_witness:
  "evaluateMedicalPolicies wednesday_noon
     \<lparr>user = doctor_A, requiredRoles = None, requiredDataClassification = Some PHI,
      institutionRequired = Some True, resourceInfo = record_at_B\<rparr>
   = \<lparr>d_allowed = False, d_reason = Some ''Cross-institution access denied'',
      d_riskLevel = Critical\<rparr>
   \<and> evaluateMedicalPolicies wednesday_noon
     \<lparr>user = doctor_A\<lparr>status := ''suspended''\<rparr>, requiredRoles = None,
      requiredDataClassification = Some PHI, institutionRequired = Some True,
      resourceInfo = record_at_B\<rparr>
   = \<lparr>d_allowed = False, d_reason = Some ''User is not active'', d_riskLevel = High\<rparr>
   \<and> evaluateMedicalPolicies wednesday_noon
     \<lparr>user = doctor_A, requiredRoles = Some [NURSE, SPECIALIST],
      requiredDataClassification = Some PHI, institutionRequired = Some True,
      resourceInfo = record_at_B\<rparr>
   = \<lparr>d_allowed = False,
      d_reason = Some ''User lacks required medical roles: nurse, specialist'',
      d_riskLevel = Medium\<rparr>"
  using cross_institution_denied [of
     "\<lparr>user = doctor_A, requiredRoles = None, requiredDataClassification = Some PHI,
       institutionRequired = Some True, resourceInfo = record_at_B\<rparr>" wednesday_noon]
    cross_institution_denied [of
     "\<lparr>user = doctor_A\<lparr>status := ''suspended''\<rparr>, requiredRoles = None,
       requiredDataClassification = Some PHI, institutionRequired = Some True,
       resourceInfo = record_at_B\<rparr>" wednesday_noon]
    cross_institution_denied [of
     "\<lparr>user = doctor_A, requiredRoles = Some [NURSE, SPECIALIST],
       requiredDataClassification = Some PHI, institutionRequired = Some True,
       resourceInfo = record_at_B\<rparr>" wednesday_noon]
  by (simp add: example_defs truthy_def Let_def)

text \<open>
  Claim C3 does not hold as stated, for the same reason: a patient who asks for another
  patient's record on a route that requires the doctor role is refused by the role rule,
  with risk level medium.
\<close>

theorem patient_other_rule_first:
  "evaluateMedicalPolicies wednesday_noon
     \<lparr>user = patient_p1, requiredRoles = Some [DOCTOR], requiredDataClassification = None,
      institutionRequired = None, resourceInfo = record_of_p2\<rparr>
   = \<lparr>d_allowed = False, d_reason = Some ''User lacks required medical roles: doctor'',
      d_riskLevel = Medium\<rparr>"
  by (simp add: evaluateMedicalPolicies_def example_defs truthy_def Let_def)

text \<open>
  Claim C3 as amended. Take an actor whose role set is exactly the patient role and a
  resource carrying a patient id, and let \<open>d0\<close> be the decision on the same request
  without the patient id, which is allowed exactly when the six earlier rules pass.
  Access is allowed only when the patient id is the actor's own id. When the earlier
  rules pass, differing ids give the denial \<open>Patients can only access their own medical
  data\<close> with risk level critical, and equal ids give \<open>allowed\<close> with risk level low.
  When an earlier rule fails, its denial is the decision.
\<close>

theorem patient_self_access:
  assumes "set (medicalRoles (user ctx)) = {PATIENT}"
      and "patientId (resourceInfo ctx) = Some pid" and "pid \<noteq> []"
  shows "let d = evaluateMedicalPolicies now ctx;
             d0 = evaluateMedicalPolicies now
                    (ctx\<lparr>resourceInfo := (resourceInfo ctx)\<lparr>patientId := None\<rparr>\<rparr>)
         in (d_allowed d \<longrightarrow> pid = user_id (user ctx))
            \<and> (pid \<noteq> user_id (user ctx) \<longrightarrow> \<not> d_allowed d)
            \<and> (d_allowed d0 \<and> pid \<noteq> user_id (user ctx) \<longrightarrow>
                 d = \<lparr>d_allowed = False,
                      d_reason = Some ''Patients can only access their own medical data'',
                      d_riskLevel = Critical\<rparr>)
            \<and> (d_allowed d0 \<and> pid = user_id (user ctx) \<longrightarrow>
                 d = \<lparr>d_allowed = True, d_reason = None, d_riskLevel = Low\<rparr>)
            \<and> (\<not> d_allowed d0 \<longrightarrow> d = d0)"
proof -
  have p: "PATIENT \<in> set (medicalRoles (user ctx))" using assms(1) by simp
  have t: "truthy (patientId (resourceInfo ctx))" using assms(2,3) by (simp add: truthy_def)
  have phi: "canUserAccessPHI (user ctx) ((resourceInfo ctx)\<lparr>patientId := None\<rparr>)
             = canUserAccessPHI (user ctx) (resourceInfo ctx)"
    by (simp add: canUserAccessPHI_def)
  show ?thesis
    using p t assms(2) phi
    by (simp add: evaluateMedicalPolicies_def Let_def truthy_def)
qed

text \<open>The amended claim at a patient asking for their own record and for another
  patient's.\<close>

theorem patient_self_access_witness:
  "evaluateMedicalPolicies wednesday_noon
     \<lparr>user = patient_p1, requiredRoles = None, requiredDataClassification = None,
      institutionRequired = None, resourceInfo = record_of_p1\<rparr>
   = \<lparr>d_allowed = True, d_reason = None, d_riskLevel = Low\<rparr>
   \<and> evaluateMedicalPolicies wednesday_noon
     \<lparr>user = patient_p1, requiredRoles = None, requiredDataClassification = None,
      institutionRequired = None, resourceInfo = record_of_p2\<rparr>
   = \<lparr>d_allowed = False,
      d_reason = Some ''Patients can only access their own medical data'',
      d_riskLevel = Critical\<rparr>"
proof -
  have d0: "\<And>info. patientId info = None \<Longrightarrow> info_institutionId info = None \<Longrightarrow>
     d_allowed (evaluateMedicalPolicies wednesday_noon
       \<lparr>user = patient_p1, requiredRoles = None, requiredDataClassification = None,
        institutionRequired = None, resourceInfo = info\<rparr>)"
    by (simp add: evaluateMedicalPolicies_def example_defs truthy_def Let_def
        checkAccessTime_def)
  show ?thesis
    using patient_self_access [of
        "\<lparr>user = patient_p1, requiredRoles = None, requiredDataClassification = None,
          institutionRequired = None, resourceInfo = record_of_p1\<rparr>" "''p1''" wednesday_noon]
      patient_self_access [of
        "\<lparr>user = patient_p1, requiredRoles = None, requiredDataClassification = None,
          institutionRequired = None, resourceInfo = record_of_p2\<rparr>" "''p2''" wednesday_noon]
      d0 [of "record_of_p1\<lparr>patientId := None\<rparr>"] d0 [of "record_of_p2\<lparr>patientId := None\<rparr>"]
    by (simp add: Let_def patient_p1_def record_of_p1_def record_of_p2_def)
qed

section \<open>Properties of the audit of every evaluation\<close>

text \<open>What \<open>logEvent\<close> writes and when it fails.\<close>

lemma logEvent_logged:
  "logged (snd (logEvent snk tr ev))
   = (if log_throws snk (auditEntry ev) then logged tr else logged tr @ [auditEntry ev])"
  by (simp add: logEvent_def Let_def)

lemma logEvent_throws:
  "log_throws snk (auditEntry ev) \<Longrightarrow> fst (logEvent snk tr ev) = Inl (failed_to_log snk ev)"
  by (simp add: logEvent_def Let_def)

lemma logEvent_alert_throws:
  "\<not> log_throws snk (auditEntry ev) \<Longrightarrow> riskLevel (auditEntry ev) = Critical \<Longrightarrow>
   alert_throws snk (auditEntry ev) \<Longrightarrow>
   fst (logEvent snk tr ev) = Inl (failed_to_log snk ev)"
  by (simp add: logEvent_def Let_def)


lemma logEvent_error: "fst (logEvent snk tr ev) = Inl err \<Longrightarrow> err = failed_to_log snk ev"
  by (auto simp: logEvent_def Let_def split: if_splits)


text \<open>Once the user and the resource information are read, the guard is its audit.\<close>

lemma canActivate_fst:
  "req_user r = Some u \<Longrightarrow> extractResourceInfo r = Inr info \<Longrightarrow>
   fst (canActivate snk e meta tr r)
   = (case fst (logEvent snk tr
         (accessEvent e (accessOf u r info
            (evaluateMedicalPolicies (guard_now e) (policyContext meta u info))
            (meta_requiredDataClassification meta)))) of
        Inl err \<Rightarrow> Inl err
      | Inr ok \<Rightarrow>
          Inr (d_allowed (evaluateMedicalPolicies (guard_now e) (policyContext meta u info))))"
  by (simp add: canActivate_def auditAccess_def logAccess_def Let_def
      split: prod.splits sum.splits)

lemma canActivate_snd:
  "req_user r = Some u \<Longrightarrow> extractResourceInfo r = Inr info \<Longrightarrow>
   snd (canActivate snk e meta tr r)
   = snd (logEvent snk tr
         (accessEvent e (accessOf u r info
            (evaluateMedicalPolicies (guard_now e) (policyContext meta u info))
            (meta_requiredDataClassification meta))))"
  by (simp add: canActivate_def auditAccess_def logAccess_def Let_def
      split: prod.splits sum.splits)

text \<open>
  A request whose body is undefined and which lacks one of the two route parameters
  makes the guard throw while it reads the resource information, before the evaluation
  and the audit; every other request is read.
\<close>

lemma canActivate_without_body:
  assumes "req_user r = Some u" and "body r = None"
      and "\<not> truthy (params r ''patientId'') \<or> \<not> truthy (params r ''institutionId'')"
  shows "\<exists>k. canActivate snk e meta tr r = (Inl (cannot_read k), tr)"
  using assms
  by (auto simp: canActivate_def extractResourceInfo_def from_request_def)

lemma extractResourceInfo_reads:
  "(\<exists>info. extractResourceInfo r = Inr info)
   \<longleftrightarrow> (body r \<noteq> None
        \<or> (truthy (params r ''patientId'') \<and> truthy (params r ''institutionId'')))"
  by (auto simp: extractResourceInfo_def from_request_def split: option.splits sum.splits)

lemma extract_get_patient_p2: "extractResourceInfo (get_patient_p2 who) = Inr record_of_p2"
  by (simp add: extractResourceInfo_def from_request_def get_patient_p2_def record_of_p2_def
      extractResourceTypeFromPath_def js_or_def truthy_def Let_def)




text \<open>
  Claim C4. When the audit of an evaluation fails, the error reaches the caller of
  \<open>canActivate\<close> and no decision is returned: whatever error \<open>logEvent\<close> raises on the
  entry of the request is the result of \<open>canActivate\<close>. A write that throws, and a critical
  alert that throws, make \<open>logEvent\<close> raise: the audit failure, or the logger's own error
  when the report in the \<open>catch\<close> block throws too. The entry of a failed write is not in
  the trail.
\<close>

theorem audit_failure_propagates:
  assumes "req_user r = Some u" and "extractResourceInfo r = Inr info"
  shows "let ev = accessEvent e (accessOf u r info
                    (evaluateMedicalPolicies (guard_now e) (policyContext meta u info))
                    (meta_requiredDataClassification meta));
             thrown = (case report_throws snk ev of
                         None \<Rightarrow> Error ''Audit logging failed - this is a compliance violation''
                       | Some x \<Rightarrow> x)
         in (fst (logEvent snk tr ev) = Inl err \<longrightarrow>
               fst (canActivate snk e meta tr r) = Inl err)
            \<and> (log_throws snk (auditEntry ev) \<longrightarrow>
               fst (logEvent snk tr ev) = Inl thrown
               \<and> fst (canActivate snk e meta tr r) = Inl thrown
               \<and> logged (snd (canActivate snk e meta tr r)) = logged tr)
            \<and> (\<not> log_throws snk (auditEntry ev) \<and> riskLevel (auditEntry ev) = Critical
                \<and> alert_throws snk (auditEntry ev) \<longrightarrow>
               fst (logEvent snk tr ev) = Inl thrown
               \<and> fst (canActivate snk e meta tr r) = Inl thrown)"
  unfolding Let_def canActivate_fst [OF assms] canActivate_snd [OF assms]
  by (auto simp: logEvent_throws logEvent_alert_throws logEvent_logged failed_to_log_def
      audit_failure_def split: option.splits)

text \<open>Claim C4 at a request of the doctor: the audit failure when the write throws, and
  the logger's error when the report throws as well.\<close>

theorem audit_failure_propagates_witness:
  "fst (canActivate broken_sink example_env no_requirements empty_trail
      (get_patient_p2 (Some doctor_A)))
   = Inl (Error ''Audit logging failed - this is a compliance violation'')
   \<and> fst (canActivate dead_sink example_env no_requirements empty_trail
      (get_patient_p2 (Some doctor_A))) = Inl (Error ''write EPIPE'')"
  using audit_failure_propagates [of "get_patient_p2 (Some doctor_A)" doctor_A record_of_p2
     example_env no_requirements broken_sink empty_trail]
    audit_failure_propagates [of "get_patient_p2 (Some doctor_A)" doctor_A record_of_p2
     example_env no_requirements dead_sink empty_trail]
    extract_get_patient_p2
  by (simp add: Let_def get_patient_p2_def broken_sink_def dead_sink_def)

end
